theory Spec2Isabelle
  imports Main "HOL-Library.Signed_Division"
begin

section \<open>Values shared by the SDK modules\<close>

text \<open>
  The SDK reads contract state and indexer snapshots and shapes the answers. Its numeric
  values are of two kinds:
  \<^item> \<open>BigNumber\<close> (ethers): an arbitrary-precision integer, modelled as \<open>int\<close>;
  \<open>sub\<close>, \<open>mul\<close> are exact, \<open>div\<close> truncates towards zero and throws on a zero divisor,
  \<open>gt\<close> compares;
  \<^item> \<open>number\<close>: timestamps and durations in seconds. They are whole numbers far below
  \<open>2 ^ 53\<close>, where the addition of JavaScript numbers is exact, and are modelled as \<open>int\<close>.
  A value of type \<open>number | null\<close> is an \<open>int option\<close>, \<open>null\<close> being \<open>None\<close>.

  An exception is a value: \<open>Error msg\<close> is \<open>throw new Error(msg)\<close> of the SDK's own code,
  \<open>DivisionByZero\<close> and \<open>InvalidBigNumber\<close> are the faults of the BigNumber library, and
  \<open>Remote e\<close> is an error \<open>e\<close> of a collaborator (the JSON-RPC provider, the indexer, the
  CLI argument parser) that passes through unchanged. \<open>Thrown e\<close> is an exception \<open>e\<close> that
  a helper of the SDK throws when it is called (\<open>getLyraContract\<close>, the encoder of a
  contract interface); it passes through unchanged as well and is kept apart from the
  exceptions that the modelled functions throw themselves.
\<close>

type_synonym BigNumber = int

datatype error = Error string | DivisionByZero | InvalidBigNumber | Remote string | Thrown string

text \<open>\<open>a.div(b)\<close> of BigNumber.\<close>

definition bn_div :: "BigNumber \<Rightarrow> BigNumber \<Rightarrow> error + BigNumber" where
  "bn_div a b = (if b = 0 then Inl DivisionByZero else Inr (a sdiv b))"

text \<open>
  \<open>!!x\<close> for \<open>x\<close> of type \<open>number | null\<close>: \<open>null\<close> and \<open>0\<close> are falsy, every other
  whole number is truthy.
\<close>

definition truthy :: "int option \<Rightarrow> bool" where
  "truthy x = (case x of None \<Rightarrow> False | Some n \<Rightarrow> n \<noteq> 0)"

text \<open>
  Sequencing of steps that may throw: the first error ends the computation.
\<close>

definition bind_err :: "error + 'a \<Rightarrow> ('a \<Rightarrow> error + 'b) \<Rightarrow> error + 'b" where
  "bind_err m f = (case m of Inl e \<Rightarrow> Inl e | Inr x \<Rightarrow> f x)"

text \<open>An awaited call of a collaborator: its rejection passes through as \<open>Remote\<close>.\<close>

definition await :: "string + 'a \<Rightarrow> error + 'a" where
  "await r = (case r of Inl e \<Rightarrow> Inl (Remote e) | Inr x \<Rightarrow> Inr x)"

text \<open>A plain call of a helper: its exception passes through as \<open>Thrown\<close>.\<close>

definition call :: "string + 'a \<Rightarrow> error + 'a" where
  "call r = (case r of Inl e \<Rightarrow> Inl (Thrown e) | Inr x \<Rightarrow> Inr x)"

text \<open>
  Modelled from the spec: the constants \<open>ZERO_BN\<close>, \<open>ONE_BN\<close> and \<open>UNIT\<close> of module
  \<open>constants/bn\<close>, which is not among the sources. \<open>ZERO_BN\<close> is the zero that the
  formulas ``produce ... rather than division-by-zero''. \<open>UNIT\<close> is the unit of the
  ``fixed-point on-chain integers'', which have 18 decimals, and \<open>ONE_BN\<close> is the number
  one in that fixed-point form, the same \<open>10 ^ 18\<close>: it is subtracted from a ratio scaled
  by \<open>UNIT\<close>.
\<close>

definition ZERO_BN :: BigNumber where
  "ZERO_BN = 0"

definition ONE_BN :: BigNumber where
  "ONE_BN = 10 ^ 18"

definition UNIT :: BigNumber where
  "UNIT = 10 ^ 18"

subsection \<open>Strings\<close>

text \<open>
  Addresses are hexadecimal strings and token symbols are ASCII, so \<open>toLowerCase\<close> is
  modelled on ASCII: the letters \<open>A\<close> to \<open>Z\<close> (codes 65 to 90) move to \<open>a\<close> to \<open>z\<close>,
  every other character stays.
\<close>

definition isUpper :: "char \<Rightarrow> bool" where
  "isUpper c = (65 \<le> (of_char c :: nat) \<and> (of_char c :: nat) \<le> 90)"

definition toLowerCase_char :: "char \<Rightarrow> char" where
  "toLowerCase_char c = (if isUpper c then char_of ((of_char c :: nat) + 32) else c)"

definition toLowerCase :: "string \<Rightarrow> string" where
  "toLowerCase s = map toLowerCase_char s"

text \<open>
  What ``equal up to the case of letters'' means, stated without \<open>toLowerCase\<close>: the two
  strings have the same length and, position by position, the same character or the
  upper-case and lower-case form of one letter.
\<close>

definition sameLetter :: "char \<Rightarrow> char \<Rightarrow> bool" where
  "sameLetter c d =
     (c = d \<or> (isUpper c \<and> (of_char d :: nat) = of_char c + 32)
            \<or> (isUpper d \<and> (of_char c :: nat) = of_char d + 32))"

definition equalIgnoringCase :: "string \<Rightarrow> string \<Rightarrow> bool" where
  "equalIgnoringCase a b = list_all2 sameLetter a b"

section \<open>The Account class\<close>

text \<open>
  Modelled from the spec: the enumerations \<open>Deployment\<close> and \<open>LyraContractId\<close> of module
  \<open>constants/contracts\<close>, which is not among the sources. Their members are those that
  the Account class names; Kovan and Local are the ``test networks'' of the faucet.
\<close>

datatype Deployment = Local | Kovan | Mainnet

datatype LyraContractId =
  TestFaucet | LyraStakingModuleProxy | MultiDistributor | OptionMarketWrapper

record Lyra =
  deployment :: Deployment

text \<open>A block of the chain, as far as the SDK reads it.\<close>

record Block =
  timestamp :: int

record Account =
  lyra :: Lyra
  address :: string

subsection \<open>Account.balances\<close>

record AccountStableBalance =
  address :: string
  symbol :: string
  decimals :: int
  balance :: BigNumber
  allowance :: BigNumber

record AccountBaseBalance =
  marketAddress :: string
  address :: string
  symbol :: string
  decimals :: int
  balance :: BigNumber
  allowance :: BigNumber

record AccountOptionTokenBalance =
  marketAddress :: string
  address :: string
  isApprovedForAll :: bool

record AccountBalances =
  stables :: "AccountStableBalance list"
  stable :: "string \<Rightarrow> error + AccountStableBalance"
  bases :: "AccountBaseBalance list"
  base :: "string \<Rightarrow> error + AccountBaseBalance"
  optionTokens :: "AccountOptionTokenBalance list"
  optionToken :: "string \<Rightarrow> error + AccountOptionTokenBalance"

text \<open>
  The three closures that \<open>balances\<close> returns, each over the list it captures.
  \<open>Array.find\<close> gives the first element that satisfies the test, or \<open>undefined\<close>.
\<close>

definition balances_stable ::
  "AccountStableBalance list \<Rightarrow> string \<Rightarrow> error + AccountStableBalance" where
  "balances_stable stableList tokenAddressOrName =
     (case find (\<lambda>s. toLowerCase (AccountStableBalance.address s) = toLowerCase tokenAddressOrName \<or>
                      toLowerCase (AccountStableBalance.symbol s) = toLowerCase tokenAddressOrName)
             stableList of
        None \<Rightarrow> Inl (Error ''Stable token does not exist'')
      | Some s \<Rightarrow> Inr s)"

definition balances_base ::
  "AccountBaseBalance list \<Rightarrow> string \<Rightarrow> error + AccountBaseBalance" where
  "balances_base baseList tokenOrMarketAddressOrName =
     (case find (\<lambda>b. toLowerCase tokenOrMarketAddressOrName \<in>
                        set [toLowerCase (AccountBaseBalance.marketAddress b),
                             toLowerCase (AccountBaseBalance.address b)] \<or>
                      toLowerCase (AccountBaseBalance.symbol b) = toLowerCase tokenOrMarketAddressOrName)
             baseList of
        None \<Rightarrow> Inl (Error ''Base token does not exist'')
      | Some b \<Rightarrow> Inr b)"

definition balances_optionToken ::
  "AccountOptionTokenBalance list \<Rightarrow> string \<Rightarrow> error + AccountOptionTokenBalance" where
  "balances_optionToken optionTokenList tokenOrMarketAddress =
     (case find (\<lambda>t. toLowerCase tokenOrMarketAddress \<in>
                        set [toLowerCase (AccountOptionTokenBalance.marketAddress t),
                             toLowerCase (AccountOptionTokenBalance.address t)])
             optionTokenList of
        None \<Rightarrow> Inl (Error ''Option token does not exist'')
      | Some t \<Rightarrow> Inr t)"

text \<open>
  \<open>balances\<close> after \<open>getAccountBalancesAndAllowances\<close> has been awaited; the three lists
  are its answer.
\<close>

definition balances ::
  "AccountStableBalance list \<Rightarrow> AccountBaseBalance list \<Rightarrow> AccountOptionTokenBalance list
     \<Rightarrow> AccountBalances" where
  "balances stableList baseList optionTokenList =
     \<lparr> stables = stableList,
       stable = balances_stable stableList,
       bases = baseList,
       base = balances_base baseList,
       optionTokens = optionTokenList,
       optionToken = balances_optionToken optionTokenList \<rparr>"

text \<open>
  What it means for an entry to match an identifier without regard to case, in the
  words of the specification and without \<open>toLowerCase\<close>: a stable token matches by its
  address or its symbol, a base token by its market address, its address or its symbol,
  an option token by its market address or its address.
\<close>

definition stableMatches :: "string \<Rightarrow> AccountStableBalance \<Rightarrow> bool" where
  "stableMatches q s =
     (equalIgnoringCase (AccountStableBalance.address s) q \<or>
      equalIgnoringCase (AccountStableBalance.symbol s) q)"

definition baseMatches :: "string \<Rightarrow> AccountBaseBalance \<Rightarrow> bool" where
  "baseMatches q b =
     (equalIgnoringCase (AccountBaseBalance.marketAddress b) q \<or>
      equalIgnoringCase (AccountBaseBalance.address b) q \<or>
      equalIgnoringCase (AccountBaseBalance.symbol b) q)"

definition optionTokenMatches :: "string \<Rightarrow> AccountOptionTokenBalance \<Rightarrow> bool" where
  "optionTokenMatches q t =
     (equalIgnoringCase (AccountOptionTokenBalance.marketAddress t) q \<or>
      equalIgnoringCase (AccountOptionTokenBalance.address t) q)"

subsection \<open>Account.liquidityUnrealizedPnl\<close>

record Market =
  address :: string
  block :: Block

text \<open>Field \<open>value\<close> of the source is \<open>value_bn\<close> here.\<close>

record AccountLiquidityTokenBalance =
  market :: Market
  address :: string
  balance :: BigNumber
  value_bn :: BigNumber
  tokenPrice :: BigNumber
  symbol :: string
  decimals :: int
  allowance :: BigNumber

record LiquidityUnrealizedPnl =
  pnl :: BigNumber
  pnlPercent :: BigNumber

text \<open>
  \<open>liquidityUnrealizedPnl\<close> after its three reads have been awaited: the liquidity token
  balance of the account and its deposits and withdrawals in the market. The helper
  \<open>getAverageCostPerLPToken\<close> is a parameter.
\<close>

definition liquidityUnrealizedPnl ::
  "('d list \<Rightarrow> 'w list \<Rightarrow> BigNumber) \<Rightarrow> AccountLiquidityTokenBalance \<Rightarrow> 'd list \<Rightarrow> 'w list
     \<Rightarrow> error + LiquidityUnrealizedPnl" where
  "liquidityUnrealizedPnl getAverageCostPerLPToken ltb liquidityDeposits liquidityWithdrawals =
     (let avgCostPerToken = getAverageCostPerLPToken liquidityDeposits liquidityWithdrawals
      in bind_err (bn_div (avgCostPerToken * AccountLiquidityTokenBalance.balance ltb) UNIT)
           (\<lambda>avgValue.
         let pnlBN = value_bn ltb - avgValue
         in bind_err
              (if avgCostPerToken > 0
               then bind_err (bn_div (AccountLiquidityTokenBalance.tokenPrice ltb * UNIT) avgCostPerToken)
                      (\<lambda>q. Inr (q - ONE_BN))
               else Inr ZERO_BN)
              (\<lambda>pnlPercentBN. Inr \<lparr> pnl = pnlBN, pnlPercent = pnlPercentBN \<rparr>)))"

subsection \<open>Account.drip\<close>

text \<open>
  A contract handle as \<open>drip\<close> uses it: its address and the encoder of its interface,
  which may throw. \<open>getLyraContract\<close> and \<open>buildTxWithGasEstimate\<close> are parameters. The
  first is called and may throw (it does when the deployment has no address for the
  contract); the second is awaited and may reject or answer with no transaction.
\<close>

record Contract =
  address :: string
  encodeFunctionData :: "string \<Rightarrow> string + string"

definition drip ::
  "(Deployment \<Rightarrow> LyraContractId \<Rightarrow> string + Contract) \<Rightarrow>
   (Lyra \<Rightarrow> string \<Rightarrow> string \<Rightarrow> string \<Rightarrow> string + 'tx option) \<Rightarrow> Account \<Rightarrow> error + 'tx" where
  "drip getLyraContract buildTxWithGasEstimate this =
     (if \<not> (deployment (lyra this) \<in> set [Kovan, Local])
      then Inl (Error ''Faucet is only supported on local and kovan contracts'')
      else
        bind_err (call (getLyraContract (deployment (lyra this)) TestFaucet)) (\<lambda>faucet.
        bind_err (call (encodeFunctionData faucet ''drip'')) (\<lambda>calldata.
        bind_err
          (await (buildTxWithGasEstimate (lyra this) (Contract.address faucet)
                    (Account.address this) calldata))
          (\<lambda>tx. case tx of
             None \<Rightarrow> Inl (Error ''Failed to estimate gas for drip transaction'')
           | Some t \<Rightarrow> Inr t))))"

subsection \<open>Account.lyraStaking\<close>

text \<open>
  The staking parameters of the protocol (module \<open>lyra_staking\<close>); \<open>lyraStaking\<close> reads
  its two durations, in seconds.
\<close>

record LyraStaking =
  cooldownPeriod :: int
  unstakeWindow :: int

record AccountLyraBalance =
  balance :: BigNumber
  stakingAllowance :: BigNumber

record AccountStakedLyraBalance =
  balance :: BigNumber

record AccountLyraStaking =
  staking :: LyraStaking
  lyraBalance :: AccountLyraBalance
  stakedLyraBalance :: AccountStakedLyraBalance
  isInUnstakeWindow :: bool
  isInCooldown :: bool
  unstakeWindowStartTimestamp :: "int option"
  unstakeWindowEndTimestamp :: "int option"

text \<open>The two locals of \<open>lyraStaking\<close> that are not returned.\<close>

definition cooldownStartTimestamp :: "int \<Rightarrow> int option" where
  "cooldownStartTimestamp accountCooldown =
     (if accountCooldown > 0 then Some accountCooldown else None)"

definition cooldownEndTimestamp :: "int \<Rightarrow> LyraStaking \<Rightarrow> int option" where
  "cooldownEndTimestamp accountCooldown stk =
     (if accountCooldown > 0 then Some (accountCooldown + cooldownPeriod stk) else None)"

text \<open>
  \<open>x && y && block.timestamp >= x && block.timestamp <= y\<close> with the truthiness tests
  \<open>!!x\<close>, \<open>!!y\<close> first: the comparisons are reached only when both are numbers.
\<close>

definition inWindow :: "int option \<Rightarrow> int option \<Rightarrow> int \<Rightarrow> bool" where
  "inWindow windowStart windowEnd now =
     (truthy windowStart \<and> truthy windowEnd \<and>
      (case windowStart of None \<Rightarrow> False | Some s \<Rightarrow>
         (case windowEnd of None \<Rightarrow> False | Some e \<Rightarrow> now \<ge> s \<and> now \<le> e)))"

text \<open>
  \<open>lyraStaking\<close> after its five reads have been awaited: the latest block, the two
  balances, the staking parameters and the staker's cooldown \<open>accountCooldown\<close>
  (\<open>stakersCooldowns(address).toNumber()\<close>).
\<close>

definition lyraStaking ::
  "Block \<Rightarrow> AccountLyraBalance \<Rightarrow> AccountStakedLyraBalance \<Rightarrow> LyraStaking \<Rightarrow> int
     \<Rightarrow> AccountLyraStaking" where
  "lyraStaking blk lyraBal stakedLyraBal stk accountCooldown =
     (let cooldownStart = cooldownStartTimestamp accountCooldown;
          cooldownEnd = cooldownEndTimestamp accountCooldown stk;
          unstakeWindowStart = cooldownEnd;
          unstakeWindowEnd =
            (if truthy unstakeWindowStart
             then map_option (\<lambda>s. s + unstakeWindow stk) unstakeWindowStart
             else None)
      in \<lparr> staking = stk,
           lyraBalance = lyraBal,
           stakedLyraBalance = stakedLyraBal,
           isInUnstakeWindow = inWindow unstakeWindowStart unstakeWindowEnd (Block.timestamp blk),
           isInCooldown = inWindow cooldownStart cooldownEnd (Block.timestamp blk),
           unstakeWindowStartTimestamp = unstakeWindowStart,
           unstakeWindowEndTimestamp = unstakeWindowEnd \<rparr>)"

section \<open>fetchLiquidityHistory\<close>

record SnapshotOptions =
  startTimestamp :: "int option"
  endTimestamp :: "int option"

text \<open>
  A snapshot as the indexer sends it (\<open>MarketTotalValueSnapshotQueryResult\<close>): the
  amounts are strings that \<open>BigNumber.from\<close> decodes, the timestamp is a number.
\<close>

record MarketTotalValueSnapshotQueryResult =
  timestamp :: int
  tokenPrice :: string
  freeLiquidity :: string
  burnableLiquidity :: string
  usedCollatLiquidity :: string
  pendingDeltaLiquidity :: string
  usedDeltaLiquidity :: string
  NAV :: string
  pendingDeposits :: string
  pendingWithdrawals :: string

text \<open>
  \<open>utilization\<close> is a JavaScript floating-point number. Its type \<open>'n\<close> is left open:
  all the code needs of it is the literal \<open>0\<close> and the conversion \<open>fromBigNumber\<close>, which
  is a parameter.
\<close>

record 'n MarketLiquidityHistory =
  freeLiquidity :: BigNumber
  burnableLiquidity :: BigNumber
  totalQueuedDeposits :: BigNumber
  nav :: BigNumber
  utilization :: 'n
  totalWithdrawingDeposits :: BigNumber
  usedCollatLiquidity :: BigNumber
  pendingDeltaLiquidity :: BigNumber
  usedDeltaLiquidity :: BigNumber
  tokenPrice :: BigNumber
  timestamp :: int
  pendingDeposits :: BigNumber
  pendingWithdrawals :: BigNumber

text \<open>The variables of the GraphQL query.\<close>

record SnapshotVariables =
  market :: string
  startTimestamp :: int
  endTimestamp :: int
  period :: int

text \<open>
  \<open>BigNumber.from(s)\<close>: the decoder \<open>bnFrom\<close> of the library is a parameter, \<open>None\<close> where
  it rejects the string.
\<close>

definition BigNumber_from :: "(string \<Rightarrow> BigNumber option) \<Rightarrow> string \<Rightarrow> error + BigNumber" where
  "BigNumber_from bnFrom s = (case bnFrom s of None \<Rightarrow> Inl InvalidBigNumber | Some n \<Rightarrow> Inr n)"

text \<open>The body of the arrow function that \<open>data.map\<close> applies to each snapshot.\<close>

definition marketLiquidity ::
  "(string \<Rightarrow> BigNumber option) \<Rightarrow> (BigNumber \<Rightarrow> 'n::zero) \<Rightarrow> MarketTotalValueSnapshotQueryResult
     \<Rightarrow> error + 'n MarketLiquidityHistory" where
  "marketLiquidity bnFrom fromBigNumber marketTotalValueSnapshot =
     bind_err (BigNumber_from bnFrom (MarketTotalValueSnapshotQueryResult.freeLiquidity marketTotalValueSnapshot)) (\<lambda>freeLiquidityBN.
     bind_err (BigNumber_from bnFrom (MarketTotalValueSnapshotQueryResult.burnableLiquidity marketTotalValueSnapshot)) (\<lambda>burnableLiquidityBN.
     bind_err (BigNumber_from bnFrom (NAV marketTotalValueSnapshot)) (\<lambda>NAVBN.
     bind_err (BigNumber_from bnFrom (MarketTotalValueSnapshotQueryResult.usedCollatLiquidity marketTotalValueSnapshot)) (\<lambda>usedCollatLiquidityBN.
     bind_err (BigNumber_from bnFrom (MarketTotalValueSnapshotQueryResult.pendingDeltaLiquidity marketTotalValueSnapshot)) (\<lambda>pendingDeltaLiquidityBN.
     bind_err (BigNumber_from bnFrom (MarketTotalValueSnapshotQueryResult.usedDeltaLiquidity marketTotalValueSnapshot)) (\<lambda>usedDeltaLiquidityBN.
     bind_err (BigNumber_from bnFrom (MarketTotalValueSnapshotQueryResult.tokenPrice marketTotalValueSnapshot)) (\<lambda>tokenPriceBN.
     bind_err (if NAVBN > 0
               then bind_err (bn_div ((NAVBN - freeLiquidityBN) * UNIT) NAVBN) (\<lambda>q. Inr (fromBigNumber q))
               else Inr 0) (\<lambda>utilizationNum.
     bind_err (BigNumber_from bnFrom (MarketTotalValueSnapshotQueryResult.pendingDeposits marketTotalValueSnapshot)) (\<lambda>pendingDepositsBN.
     bind_err (BigNumber_from bnFrom (MarketTotalValueSnapshotQueryResult.pendingWithdrawals marketTotalValueSnapshot)) (\<lambda>pendingWithdrawalsBN.
     Inr \<lparr> freeLiquidity = freeLiquidityBN,
           burnableLiquidity = burnableLiquidityBN,
           totalQueuedDeposits = ZERO_BN,
           nav = NAVBN,
           utilization = utilizationNum,
           totalWithdrawingDeposits = ZERO_BN,
           usedCollatLiquidity = usedCollatLiquidityBN,
           pendingDeltaLiquidity = pendingDeltaLiquidityBN,
           usedDeltaLiquidity = usedDeltaLiquidityBN,
           tokenPrice = tokenPriceBN,
           timestamp = MarketTotalValueSnapshotQueryResult.timestamp marketTotalValueSnapshot,
           pendingDeposits = pendingDepositsBN,
           pendingWithdrawals = pendingWithdrawalsBN \<rparr>))))))))))"

text \<open>\<open>Array.map\<close> with a function that may throw: left to right, the first error ends it.\<close>

fun mapE :: "('a \<Rightarrow> error + 'b) \<Rightarrow> 'a list \<Rightarrow> error + 'b list" where
  "mapE f [] = Inr []"
| "mapE f (x # xs) = bind_err (f x) (\<lambda>y. bind_err (mapE f xs) (\<lambda>ys. Inr (y # ys)))"

text \<open>
  The head of \<open>fetchLiquidityHistory\<close>: the variables of its query, from the market and
  the options of the call. \<open>getSnapshotPeriod\<close> is a parameter.
\<close>

definition queryVariables ::
  "(int \<Rightarrow> int \<Rightarrow> int) \<Rightarrow> Market \<Rightarrow> SnapshotOptions option \<Rightarrow> SnapshotVariables" where
  "queryVariables getSnapshotPeriod mkt options =
     (let startTs = (case Option.bind options SnapshotOptions.startTimestamp of
                       None \<Rightarrow> 0 | Some t \<Rightarrow> t);
          endTs = (case Option.bind options SnapshotOptions.endTimestamp of
                     None \<Rightarrow> Block.timestamp (block mkt) | Some t \<Rightarrow> t)
      in \<lparr> market = toLowerCase (Market.address mkt),
           startTimestamp = startTs,
           endTimestamp = endTs,
           period = getSnapshotPeriod startTs endTs \<rparr>)"

text \<open>
  \<open>fetchLiquidityHistory\<close>. The indexer is the parameter \<open>fetchSnapshots\<close>, called with the
  variables of the query and awaited.
\<close>

definition fetchLiquidityHistory ::
  "(SnapshotVariables \<Rightarrow> string + MarketTotalValueSnapshotQueryResult list) \<Rightarrow>
   (int \<Rightarrow> int \<Rightarrow> int) \<Rightarrow> (string \<Rightarrow> BigNumber option) \<Rightarrow> (BigNumber \<Rightarrow> 'n::zero) \<Rightarrow>
   Market \<Rightarrow> SnapshotOptions option \<Rightarrow> error + 'n MarketLiquidityHistory list" where
  "fetchLiquidityHistory fetchSnapshots getSnapshotPeriod bnFrom fromBigNumber mkt options =
     bind_err (await (fetchSnapshots (queryVariables getSnapshotPeriod mkt options)))
       (\<lambda>data. mapE (marketLiquidity bnFrom fromBigNumber) data)"

text \<open>
  A snapshot and a record of the history carry the same values: the timestamp is the
  same number and each amount of the record is what the snapshot's string decodes to.
\<close>

definition sameValues ::
  "(string \<Rightarrow> BigNumber option) \<Rightarrow> MarketTotalValueSnapshotQueryResult
     \<Rightarrow> 'n MarketLiquidityHistory \<Rightarrow> bool" where
  "sameValues bnFrom s r =
     (MarketLiquidityHistory.timestamp r = MarketTotalValueSnapshotQueryResult.timestamp s \<and>
      bnFrom (MarketTotalValueSnapshotQueryResult.freeLiquidity s) =
        Some (MarketLiquidityHistory.freeLiquidity r) \<and>
      bnFrom (MarketTotalValueSnapshotQueryResult.burnableLiquidity s) =
        Some (MarketLiquidityHistory.burnableLiquidity r) \<and>
      bnFrom (NAV s) = Some (nav r) \<and>
      bnFrom (MarketTotalValueSnapshotQueryResult.usedCollatLiquidity s) =
        Some (MarketLiquidityHistory.usedCollatLiquidity r) \<and>
      bnFrom (MarketTotalValueSnapshotQueryResult.pendingDeltaLiquidity s) =
        Some (MarketLiquidityHistory.pendingDeltaLiquidity r) \<and>
      bnFrom (MarketTotalValueSnapshotQueryResult.usedDeltaLiquidity s) =
        Some (MarketLiquidityHistory.usedDeltaLiquidity r) \<and>
      bnFrom (MarketTotalValueSnapshotQueryResult.tokenPrice s) =
        Some (MarketLiquidityHistory.tokenPrice r) \<and>
      bnFrom (MarketTotalValueSnapshotQueryResult.pendingDeposits s) =
        Some (MarketLiquidityHistory.pendingDeposits r) \<and>
      bnFrom (MarketTotalValueSnapshotQueryResult.pendingWithdrawals s) =
        Some (MarketLiquidityHistory.pendingWithdrawals r))"

text \<open>A snapshot is well formed when the library decodes each of its nine amounts.\<close>

definition decodable :: "(string \<Rightarrow> BigNumber option) \<Rightarrow> MarketTotalValueSnapshotQueryResult \<Rightarrow> bool" where
  "decodable bnFrom s =
     (bnFrom (MarketTotalValueSnapshotQueryResult.freeLiquidity s) \<noteq> None \<and>
      bnFrom (MarketTotalValueSnapshotQueryResult.burnableLiquidity s) \<noteq> None \<and>
      bnFrom (NAV s) \<noteq> None \<and>
      bnFrom (MarketTotalValueSnapshotQueryResult.usedCollatLiquidity s) \<noteq> None \<and>
      bnFrom (MarketTotalValueSnapshotQueryResult.pendingDeltaLiquidity s) \<noteq> None \<and>
      bnFrom (MarketTotalValueSnapshotQueryResult.usedDeltaLiquidity s) \<noteq> None \<and>
      bnFrom (MarketTotalValueSnapshotQueryResult.tokenPrice s) \<noteq> None \<and>
      bnFrom (MarketTotalValueSnapshotQueryResult.pendingDeposits s) \<noteq> None \<and>
      bnFrom (MarketTotalValueSnapshotQueryResult.pendingWithdrawals s) \<noteq> None)"

text \<open>
  The utilization of a record with respect to its snapshot: the record's NAV is what the
  snapshot's \<open>NAV\<close> string decodes to; when it is not greater than zero the utilization is
  the literal \<open>0\<close>, and only when it is greater than zero is the utilization the
  converted quotient by the NAV.
\<close>

definition guardedUtilization ::
  "(string \<Rightarrow> BigNumber option) \<Rightarrow> (BigNumber \<Rightarrow> 'n::zero) \<Rightarrow> MarketTotalValueSnapshotQueryResult
     \<Rightarrow> 'n MarketLiquidityHistory \<Rightarrow> bool" where
  "guardedUtilization bnFrom fromBigNumber s r =
     (bnFrom (NAV s) = Some (nav r) \<and>
      (nav r \<le> 0 \<longrightarrow> utilization r = 0) \<and>
      (0 < nav r \<longrightarrow>
         utilization r =
           fromBigNumber (((nav r - MarketLiquidityHistory.freeLiquidity r) * UNIT) sdiv nav r)))"

section \<open>The command optionTradingVolume\<close>

text \<open>
  The table of flags handed to the argument parser. Its fields \<open>type\<close>, \<open>alias\<close> and
  \<open>require\<close> are \<open>optType\<close>, \<open>optAlias\<close> and \<open>optRequire\<close> here.
\<close>

datatype YargsType = TString | TNumber | TBoolean

record YargsOption =
  optType :: YargsType
  optAlias :: string
  optRequire :: bool

definition optionTradingVolume_options :: "(string \<times> YargsOption) list" where
  "optionTradingVolume_options =
     [ (''market'', \<lparr> optType = TString, optAlias = ''m'', optRequire = True \<rparr>),
       (''strikeId'', \<lparr> optType = TNumber, optAlias = ''s'', optRequire = True \<rparr>),
       (''isCall'', \<lparr> optType = TBoolean, optAlias = ''i'', optRequire = True \<rparr>),
       (''timestamp'', \<lparr> optType = TNumber, optAlias = ''t'', optRequire = False \<rparr>) ]"

record Args =
  market :: string
  strikeId :: int
  isCall :: bool
  timestamp :: "int option"

record TradingVolumeOptions =
  startTimestamp :: "int option"

text \<open>
  The command. Its collaborators are parameters: the argument parser \<open>yargs\<close>, the lookup
  \<open>lyra.option\<close> and the query \<open>option.tradingVolumeHistory\<close>; each is awaited. The result
  is what the command writes with \<open>console.log\<close>, one entry per call.
\<close>

definition optionTradingVolume ::
  "(string list \<Rightarrow> (string \<times> YargsOption) list \<Rightarrow> string + Args) \<Rightarrow>
   (string \<Rightarrow> int \<Rightarrow> bool \<Rightarrow> string + 'opt) \<Rightarrow>
   ('opt \<Rightarrow> TradingVolumeOptions \<Rightarrow> string + 'vol list) \<Rightarrow> string list \<Rightarrow> error + nat list" where
  "optionTradingVolume yargs lyra_option tradingVolumeHistory argv =
     bind_err (await (yargs argv optionTradingVolume_options)) (\<lambda>args.
     bind_err (await (lyra_option (Args.market args) (strikeId args) (isCall args))) (\<lambda>opt.
     bind_err (await (tradingVolumeHistory opt \<lparr> startTimestamp = Args.timestamp args \<rparr>)) (\<lambda>optionVolumes.
     Inr [length optionVolumes])))"

section \<open>Sample data\<close>

text \<open>Concrete inputs at which the properties below are evaluated.\<close>

definition sampleStables :: "AccountStableBalance list" where
  "sampleStables =
     [\<lparr> AccountStableBalance.address = ''0xAb01'', symbol = ''sUSD'', decimals = 18,
         balance = 5, allowance = 0 \<rparr>]"

definition sampleBases :: "AccountBaseBalance list" where
  "sampleBases =
     [\<lparr> AccountBaseBalance.marketAddress = ''0xM1'', address = ''0xCd02'', symbol = ''sETH'',
         decimals = 18, balance = 2, allowance = 0 \<rparr>]"

definition sampleOptionTokens :: "AccountOptionTokenBalance list" where
  "sampleOptionTokens =
     [\<lparr> AccountOptionTokenBalance.marketAddress = ''0xM1'', address = ''0xEf03'',
         isApprovedForAll = True \<rparr>]"

definition sampleDecode :: "string \<Rightarrow> BigNumber option" where
  "sampleDecode = map_of [(''0'', 0), (''40'', 40), (''100'', 100)]"

definition sampleSnapshots :: "MarketTotalValueSnapshotQueryResult list" where
  "sampleSnapshots =
     [\<lparr> MarketTotalValueSnapshotQueryResult.timestamp = 10, tokenPrice = ''100'',
         freeLiquidity = ''40'', burnableLiquidity = ''40'', usedCollatLiquidity = ''0'',
         pendingDeltaLiquidity = ''0'', usedDeltaLiquidity = ''0'', NAV = ''100'',
         pendingDeposits = ''0'', pendingWithdrawals = ''0'' \<rparr>,
      \<lparr> MarketTotalValueSnapshotQueryResult.timestamp = 20, tokenPrice = ''100'',
         freeLiquidity = ''40'', burnableLiquidity = ''0'', usedCollatLiquidity = ''0'',
         pendingDeltaLiquidity = ''0'', usedDeltaLiquidity = ''0'', NAV = ''0'',
         pendingDeposits = ''40'', pendingWithdrawals = ''0'' \<rparr>]"

definition sampleHistory :: "int MarketLiquidityHistory list" where
  "sampleHistory =
     [\<lparr> MarketLiquidityHistory.freeLiquidity = 40, burnableLiquidity = 40,
         totalQueuedDeposits = 0, nav = 100, utilization = 600000000000000000,
         totalWithdrawingDeposits = 0, usedCollatLiquidity = 0, pendingDeltaLiquidity = 0,
         usedDeltaLiquidity = 0, tokenPrice = 100, timestamp = 10, pendingDeposits = 0,
         pendingWithdrawals = 0 \<rparr>,
      \<lparr> MarketLiquidityHistory.freeLiquidity = 40, burnableLiquidity = 0,
         totalQueuedDeposits = 0, nav = 0, utilization = 0,
         totalWithdrawingDeposits = 0, usedCollatLiquidity = 0, pendingDeltaLiquidity = 0,
         usedDeltaLiquidity = 0, tokenPrice = 100, timestamp = 20, pendingDeposits = 40,
         pendingWithdrawals = 0 \<rparr>]"

definition sampleMarket :: Market where
  "sampleMarket = \<lparr> Market.address = ''0xM1'', block = \<lparr> Block.timestamp = 30 \<rparr> \<rparr>"

definition sampleTokenBalance :: AccountLiquidityTokenBalance where
  "sampleTokenBalance =
     \<lparr> AccountLiquidityTokenBalance.market = sampleMarket, address = ''0xLp04'', balance = 3,
       value_bn = 7, tokenPrice = 2, symbol = ''LP'', decimals = 18, allowance = 0 \<rparr>"

definition sampleFaucet :: "Deployment \<Rightarrow> LyraContractId \<Rightarrow> string + Contract" where
  "sampleFaucet d c =
     (if d = Local then Inl ''Global contract address not found''
      else Inr \<lparr> Contract.address = ''0xFa05'', encodeFunctionData = (\<lambda>f. Inr f) \<rparr>)"

definition sampleBuildTx ::
  "Lyra \<Rightarrow> string \<Rightarrow> string \<Rightarrow> string \<Rightarrow> string + (string \<times> string \<times> string) option" where
  "sampleBuildTx l receiver sender calldata = Inr (Some (receiver, sender, calldata))"

definition sampleArgs :: Args where
  "sampleArgs = \<lparr> Args.market = ''eth'', strikeId = 5, isCall = True, timestamp = Some 100 \<rparr>"

section \<open>Properties of Account.lyraStaking\<close>

lemmas lyraStaking_unfold =
  lyraStaking_def cooldownStartTimestamp_def cooldownEndTimestamp_def inWindow_def truthy_def
  Let_def

text \<open>
  C8. An account whose stored cooldown timestamp is zero has no unstake window (both
  timestamps are null) and is neither in cooldown nor in the unstake window, whatever
  the block timestamp is.
\<close>

theorem lyraStaking_no_cooldown:
  "accountCooldown = 0 \<Longrightarrow>
     unstakeWindowStartTimestamp (lyraStaking blk lb sb stk accountCooldown) = None \<and>
     unstakeWindowEndTimestamp (lyraStaking blk lb sb stk accountCooldown) = None \<and>
     \<not> isInCooldown (lyraStaking blk lb sb stk accountCooldown) \<and>
     \<not> isInUnstakeWindow (lyraStaking blk lb sb stk accountCooldown)"
  by (simp add: lyraStaking_unfold)

theorem lyraStaking_no_cooldown_witness:
  "unstakeWindowStartTimestamp
     (lyraStaking \<lparr>Block.timestamp = 1700000000\<rparr> \<lparr>AccountLyraBalance.balance = 5, stakingAllowance = 0\<rparr> \<lparr>AccountStakedLyraBalance.balance = 7\<rparr>
        \<lparr>cooldownPeriod = 864000, unstakeWindow = 172800\<rparr> 0) = None \<and>
   unstakeWindowEndTimestamp
     (lyraStaking \<lparr>Block.timestamp = 1700000000\<rparr> \<lparr>AccountLyraBalance.balance = 5, stakingAllowance = 0\<rparr> \<lparr>AccountStakedLyraBalance.balance = 7\<rparr>
        \<lparr>cooldownPeriod = 864000, unstakeWindow = 172800\<rparr> 0) = None \<and>
   \<not> isInCooldown
     (lyraStaking \<lparr>Block.timestamp = 1700000000\<rparr> \<lparr>AccountLyraBalance.balance = 5, stakingAllowance = 0\<rparr> \<lparr>AccountStakedLyraBalance.balance = 7\<rparr>
        \<lparr>cooldownPeriod = 864000, unstakeWindow = 172800\<rparr> 0) \<and>
   \<not> isInUnstakeWindow
     (lyraStaking \<lparr>Block.timestamp = 1700000000\<rparr> \<lparr>AccountLyraBalance.balance = 5, stakingAllowance = 0\<rparr> \<lparr>AccountStakedLyraBalance.balance = 7\<rparr>
        \<lparr>cooldownPeriod = 864000, unstakeWindow = 172800\<rparr> 0)"
  using lyraStaking_no_cooldown
    [of 0 "\<lparr>Block.timestamp = 1700000000\<rparr>" "\<lparr>AccountLyraBalance.balance = 5, stakingAllowance = 0\<rparr>" "\<lparr>AccountStakedLyraBalance.balance = 7\<rparr>"
        "\<lparr>cooldownPeriod = 864000, unstakeWindow = 172800\<rparr>"]
  by simp

text \<open>
  C5. For a positive stored cooldown timestamp \<open>c\<close>, a cooldown period \<open>p\<close> and an unstake
  window \<open>w\<close>, the cooldown runs from \<open>c\<close> to \<open>c + p\<close> and the unstake window from \<open>c + p\<close>,
  where the cooldown ends, to \<open>c + p + w\<close>. The cooldown period is a duration: it is not
  negative.
\<close>

theorem lyraStaking_windows:
  "0 < c \<Longrightarrow> 0 \<le> cooldownPeriod stk \<Longrightarrow>
     cooldownStartTimestamp c = Some c \<and>
     cooldownEndTimestamp c stk = Some (c + cooldownPeriod stk) \<and>
     unstakeWindowStartTimestamp (lyraStaking blk lb sb stk c) = Some (c + cooldownPeriod stk) \<and>
     unstakeWindowEndTimestamp (lyraStaking blk lb sb stk c) =
       Some (c + cooldownPeriod stk + unstakeWindow stk)"
  by (simp add: lyraStaking_unfold)

theorem lyraStaking_windows_witness:
  "cooldownStartTimestamp 1000 = Some 1000 \<and>
   cooldownEndTimestamp 1000 \<lparr>cooldownPeriod = 500, unstakeWindow = 200\<rparr> = Some 1500 \<and>
   unstakeWindowStartTimestamp
     (lyraStaking \<lparr>Block.timestamp = 1600\<rparr> \<lparr>AccountLyraBalance.balance = 5, stakingAllowance = 0\<rparr>
        \<lparr>AccountStakedLyraBalance.balance = 7\<rparr> \<lparr>cooldownPeriod = 500, unstakeWindow = 200\<rparr> 1000)
     = Some 1500 \<and>
   unstakeWindowEndTimestamp
     (lyraStaking \<lparr>Block.timestamp = 1600\<rparr> \<lparr>AccountLyraBalance.balance = 5, stakingAllowance = 0\<rparr>
        \<lparr>AccountStakedLyraBalance.balance = 7\<rparr> \<lparr>cooldownPeriod = 500, unstakeWindow = 200\<rparr> 1000)
     = Some 1700"
  using lyraStaking_windows
    [of 1000 "\<lparr>cooldownPeriod = 500, unstakeWindow = 200\<rparr>" "\<lparr>Block.timestamp = 1600\<rparr>"
        "\<lparr>AccountLyraBalance.balance = 5, stakingAllowance = 0\<rparr>"
        "\<lparr>AccountStakedLyraBalance.balance = 7\<rparr>"]
  by simp

text \<open>
  C1. \<open>isInCooldown\<close> is true exactly when a positive cooldown is recorded and the block
  timestamp lies between the cooldown's start and its end, both included; and, the
  cooldown period being a duration (not negative), \<open>isInUnstakeWindow\<close> is true exactly
  when a positive cooldown is recorded and the block timestamp lies between the start of
  the unstake window and its end, both included. Each is stated twice: with the bounds
  written out from the stored cooldown \<open>c\<close>, and with the window timestamps that
  \<open>lyraStaking\<close> computes, which are numbers only when a positive cooldown is recorded.
\<close>

theorem lyraStaking_window_flags:
  "(isInCooldown (lyraStaking blk lb sb stk c) \<longleftrightarrow>
      0 < c \<and> c \<le> Block.timestamp blk \<and> Block.timestamp blk \<le> c + cooldownPeriod stk) \<and>
   (isInCooldown (lyraStaking blk lb sb stk c) \<longleftrightarrow>
      (\<exists>s e. cooldownStartTimestamp c = Some s \<and> cooldownEndTimestamp c stk = Some e \<and>
             s \<le> Block.timestamp blk \<and> Block.timestamp blk \<le> e)) \<and>
   (0 \<le> cooldownPeriod stk \<longrightarrow>
      (isInUnstakeWindow (lyraStaking blk lb sb stk c) \<longleftrightarrow>
         0 < c \<and> c + cooldownPeriod stk \<le> Block.timestamp blk \<and>
         Block.timestamp blk \<le> c + cooldownPeriod stk + unstakeWindow stk) \<and>
      (isInUnstakeWindow (lyraStaking blk lb sb stk c) \<longleftrightarrow>
         (\<exists>s e. unstakeWindowStartTimestamp (lyraStaking blk lb sb stk c) = Some s \<and>
                unstakeWindowEndTimestamp (lyraStaking blk lb sb stk c) = Some e \<and>
                s \<le> Block.timestamp blk \<and> Block.timestamp blk \<le> e)))"
  by (auto simp add: lyraStaking_unfold)

theorem lyraStaking_window_flags_witness:
  "\<not> isInCooldown
     (lyraStaking \<lparr>Block.timestamp = 1700\<rparr> \<lparr>AccountLyraBalance.balance = 5, stakingAllowance = 0\<rparr>
        \<lparr>AccountStakedLyraBalance.balance = 7\<rparr> \<lparr>cooldownPeriod = 500, unstakeWindow = 200\<rparr> 1000) \<and>
   isInUnstakeWindow
     (lyraStaking \<lparr>Block.timestamp = 1700\<rparr> \<lparr>AccountLyraBalance.balance = 5, stakingAllowance = 0\<rparr>
        \<lparr>AccountStakedLyraBalance.balance = 7\<rparr> \<lparr>cooldownPeriod = 500, unstakeWindow = 200\<rparr> 1000)"
  using lyraStaking_window_flags
    [of "\<lparr>Block.timestamp = 1700\<rparr>" "\<lparr>AccountLyraBalance.balance = 5, stakingAllowance = 0\<rparr>"
        "\<lparr>AccountStakedLyraBalance.balance = 7\<rparr>" "\<lparr>cooldownPeriod = 500, unstakeWindow = 200\<rparr>"
        1000]
  by simp

text \<open>
  C9. \<open>isInCooldown\<close> and \<open>isInUnstakeWindow\<close> are both true at one instant only: then the
  block timestamp is the end of the cooldown, which is the start of the unstake window.
  At any other timestamp at most one of the two holds.
\<close>

theorem lyraStaking_overlap_instant:
  "isInCooldown (lyraStaking blk lb sb stk c) \<Longrightarrow>
   isInUnstakeWindow (lyraStaking blk lb sb stk c) \<Longrightarrow>
     cooldownEndTimestamp c stk = Some (Block.timestamp blk) \<and>
     unstakeWindowStartTimestamp (lyraStaking blk lb sb stk c) = Some (Block.timestamp blk)"
  by (auto simp add: lyraStaking_unfold split: if_splits)

theorem lyraStaking_overlap_instant_witness:
  "isInCooldown
     (lyraStaking \<lparr>Block.timestamp = 1500\<rparr> \<lparr>AccountLyraBalance.balance = 5, stakingAllowance = 0\<rparr>
        \<lparr>AccountStakedLyraBalance.balance = 7\<rparr> \<lparr>cooldownPeriod = 500, unstakeWindow = 200\<rparr> 1000) \<and>
   isInUnstakeWindow
     (lyraStaking \<lparr>Block.timestamp = 1500\<rparr> \<lparr>AccountLyraBalance.balance = 5, stakingAllowance = 0\<rparr>
        \<lparr>AccountStakedLyraBalance.balance = 7\<rparr> \<lparr>cooldownPeriod = 500, unstakeWindow = 200\<rparr> 1000) \<and>
   cooldownEndTimestamp 1000 \<lparr>cooldownPeriod = 500, unstakeWindow = 200\<rparr> = Some 1500 \<and>
   unstakeWindowStartTimestamp
     (lyraStaking \<lparr>Block.timestamp = 1500\<rparr> \<lparr>AccountLyraBalance.balance = 5, stakingAllowance = 0\<rparr>
        \<lparr>AccountStakedLyraBalance.balance = 7\<rparr> \<lparr>cooldownPeriod = 500, unstakeWindow = 200\<rparr> 1000)
     = Some 1500"
proof -
  let ?r = "lyraStaking \<lparr>Block.timestamp = 1500\<rparr>
      \<lparr>AccountLyraBalance.balance = 5, stakingAllowance = 0\<rparr>
      \<lparr>AccountStakedLyraBalance.balance = 7\<rparr> \<lparr>cooldownPeriod = 500, unstakeWindow = 200\<rparr> 1000"
  have a: "isInCooldown ?r" by (simp add: lyraStaking_unfold)
  have b: "isInUnstakeWindow ?r" by (simp add: lyraStaking_unfold)
  from lyraStaking_overlap_instant [OF a b] a b show ?thesis by simp
qed

section \<open>Properties of Account.balances\<close>

lemma of_char_toLowerCase_char:
  "(of_char (toLowerCase_char c) :: nat) = (if isUpper c then of_char c + 32 else of_char c)"
  by (simp add: toLowerCase_char_def isUpper_def)

lemma toLowerCase_char_eq_iff:
  "toLowerCase_char c = toLowerCase_char d \<longleftrightarrow> sameLetter c d"
proof -
  have "toLowerCase_char c = toLowerCase_char d \<longleftrightarrow>
        (of_char (toLowerCase_char c) :: nat) = of_char (toLowerCase_char d)"
    by simp
  also have "\<dots> \<longleftrightarrow> sameLetter c d"
    unfolding of_char_toLowerCase_char sameLetter_def
    by (auto simp add: isUpper_def)
  finally show ?thesis .
qed

text \<open>
  Comparing the lower-case forms, as the code does, is the comparison up to the case of
  letters.
\<close>

lemma toLowerCase_eq_iff:
  "toLowerCase a = toLowerCase b \<longleftrightarrow> equalIgnoringCase a b"
proof -
  have "toLowerCase a = toLowerCase b \<longleftrightarrow>
        list_all2 (=) (map toLowerCase_char a) (map toLowerCase_char b)"
    by (simp add: toLowerCase_def list.rel_eq)
  also have "\<dots> \<longleftrightarrow> list_all2 (\<lambda>c d. toLowerCase_char c = toLowerCase_char d) a b"
    by (simp add: list.rel_map)
  finally show ?thesis
    by (simp add: equalIgnoringCase_def toLowerCase_char_eq_iff)
qed

lemma balances_stable_find:
  "balances_stable ss q =
     (case find (stableMatches q) ss of
        None \<Rightarrow> Inl (Error ''Stable token does not exist'') | Some s \<Rightarrow> Inr s)"
proof -
  have "(\<lambda>s. toLowerCase (AccountStableBalance.address s) = toLowerCase q \<or>
             toLowerCase (AccountStableBalance.symbol s) = toLowerCase q) = stableMatches q"
    by (rule ext) (simp add: stableMatches_def toLowerCase_eq_iff)
  then show ?thesis by (simp add: balances_stable_def)
qed

lemma balances_base_find:
  "balances_base bs q =
     (case find (baseMatches q) bs of
        None \<Rightarrow> Inl (Error ''Base token does not exist'') | Some b \<Rightarrow> Inr b)"
proof -
  have "(\<lambda>b. toLowerCase q \<in> set [toLowerCase (AccountBaseBalance.marketAddress b),
                                      toLowerCase (AccountBaseBalance.address b)] \<or>
             toLowerCase (AccountBaseBalance.symbol b) = toLowerCase q) = baseMatches q"
    by (rule ext) (auto simp add: baseMatches_def toLowerCase_eq_iff [symmetric])
  then show ?thesis by (simp add: balances_base_def)
qed

lemma balances_optionToken_find:
  "balances_optionToken ts q =
     (case find (optionTokenMatches q) ts of
        None \<Rightarrow> Inl (Error ''Option token does not exist'') | Some t \<Rightarrow> Inr t)"
proof -
  have "(\<lambda>t. toLowerCase q \<in> set [toLowerCase (AccountOptionTokenBalance.marketAddress t),
                                      toLowerCase (AccountOptionTokenBalance.address t)])
          = optionTokenMatches q"
    by (rule ext) (auto simp add: optionTokenMatches_def toLowerCase_eq_iff [symmetric])
  then show ?thesis by (simp add: balances_optionToken_def)
qed

lemma find_lookup_found:
  "\<exists>x\<in>set xs. P x \<Longrightarrow>
     \<exists>x\<in>set xs. P x \<and> (case find P xs of None \<Rightarrow> Inl e | Some x \<Rightarrow> Inr x) = Inr x"
proof -
  assume "\<exists>x\<in>set xs. P x"
  then obtain y where y: "find P xs = Some y"
    by (cases "find P xs") (auto simp add: find_None_iff)
  then have "y \<in> set xs \<and> P y"
    by (auto simp add: find_Some_iff)
  with y show ?thesis by auto
qed

lemma find_lookup_missing:
  "\<forall>x\<in>set xs. \<not> P x \<Longrightarrow> (case find P xs of None \<Rightarrow> Inl e | Some x \<Rightarrow> Inr x) = Inl e"
  by (simp add: find_None_iff [THEN iffD2])

lemma equalIgnoringCase_matches:
  assumes "equalIgnoringCase q q'"
  shows "stableMatches q = stableMatches q'" "baseMatches q = baseMatches q'"
    "optionTokenMatches q = optionTokenMatches q'"
  using assms
  by (auto simp add: fun_eq_iff stableMatches_def baseMatches_def optionTokenMatches_def
      toLowerCase_eq_iff [symmetric])

text \<open>
  C3. Each of the three lookups that \<open>balances\<close> returns finds an entry of its list that
  matches the identifier up to the case of letters (a stable token by address or symbol,
  a base token by market address, address or symbol, an option token by market address
  or address) whenever the list has one, and throws its static message (\<open>Stable token
  does not exist\<close>, \<open>Base token does not exist\<close>, \<open>Option token does not exist\<close>) when no
  entry matches; two identifiers that differ in case only get the same answer.
\<close>

theorem balances_lookup:
  "((\<exists>s\<in>set ss. stableMatches q s) \<longrightarrow>
      (\<exists>s\<in>set ss. stableMatches q s \<and> stable (balances ss bs ts) q = Inr s)) \<and>
   ((\<forall>s\<in>set ss. \<not> stableMatches q s) \<longrightarrow>
      stable (balances ss bs ts) q = Inl (Error ''Stable token does not exist'')) \<and>
   ((\<exists>b\<in>set bs. baseMatches q b) \<longrightarrow>
      (\<exists>b\<in>set bs. baseMatches q b \<and> base (balances ss bs ts) q = Inr b)) \<and>
   ((\<forall>b\<in>set bs. \<not> baseMatches q b) \<longrightarrow>
      base (balances ss bs ts) q = Inl (Error ''Base token does not exist'')) \<and>
   ((\<exists>t\<in>set ts. optionTokenMatches q t) \<longrightarrow>
      (\<exists>t\<in>set ts. optionTokenMatches q t \<and> optionToken (balances ss bs ts) q = Inr t)) \<and>
   ((\<forall>t\<in>set ts. \<not> optionTokenMatches q t) \<longrightarrow>
      optionToken (balances ss bs ts) q = Inl (Error ''Option token does not exist'')) \<and>
   (equalIgnoringCase q q' \<longrightarrow>
      stable (balances ss bs ts) q = stable (balances ss bs ts) q' \<and>
      base (balances ss bs ts) q = base (balances ss bs ts) q' \<and>
      optionToken (balances ss bs ts) q = optionToken (balances ss bs ts) q')"
proof -
  have st: "stable (balances ss bs ts) = balances_stable ss"
    and ba: "base (balances ss bs ts) = balances_base bs"
    and ot: "optionToken (balances ss bs ts) = balances_optionToken ts"
    by (simp_all add: balances_def)
  have "(\<exists>s\<in>set ss. stableMatches q s) \<longrightarrow>
      (\<exists>s\<in>set ss. stableMatches q s \<and> balances_stable ss q = Inr s)"
    unfolding balances_stable_find by (blast intro: find_lookup_found)
  moreover have "(\<forall>s\<in>set ss. \<not> stableMatches q s) \<longrightarrow>
      balances_stable ss q = Inl (Error ''Stable token does not exist'')"
    unfolding balances_stable_find by (blast intro: find_lookup_missing)
  moreover have "(\<exists>b\<in>set bs. baseMatches q b) \<longrightarrow>
      (\<exists>b\<in>set bs. baseMatches q b \<and> balances_base bs q = Inr b)"
    unfolding balances_base_find by (blast intro: find_lookup_found)
  moreover have "(\<forall>b\<in>set bs. \<not> baseMatches q b) \<longrightarrow>
      balances_base bs q = Inl (Error ''Base token does not exist'')"
    unfolding balances_base_find by (blast intro: find_lookup_missing)
  moreover have "(\<exists>t\<in>set ts. optionTokenMatches q t) \<longrightarrow>
      (\<exists>t\<in>set ts. optionTokenMatches q t \<and> balances_optionToken ts q = Inr t)"
    unfolding balances_optionToken_find by (blast intro: find_lookup_found)
  moreover have "(\<forall>t\<in>set ts. \<not> optionTokenMatches q t) \<longrightarrow>
      balances_optionToken ts q = Inl (Error ''Option token does not exist'')"
    unfolding balances_optionToken_find by (blast intro: find_lookup_missing)
  moreover have "equalIgnoringCase q q' \<longrightarrow>
      balances_stable ss q = balances_stable ss q' \<and>
      balances_base bs q = balances_base bs q' \<and>
      balances_optionToken ts q = balances_optionToken ts q'"
    by (simp add: balances_stable_find balances_base_find balances_optionToken_find
        equalIgnoringCase_matches)
  ultimately show ?thesis
    unfolding st ba ot by blast
qed

lemmas match_unfold =
  stableMatches_def baseMatches_def optionTokenMatches_def equalIgnoringCase_def
  sameLetter_def isUpper_def

theorem balances_lookup_witness:
  "stable (balances sampleStables sampleBases sampleOptionTokens) ''SUSD'' = Inr (hd sampleStables) \<and>
   stable (balances sampleStables sampleBases sampleOptionTokens) ''susd'' = Inr (hd sampleStables) \<and>
   base (balances sampleStables sampleBases sampleOptionTokens) ''SUSD'' =
     Inl (Error ''Base token does not exist'') \<and>
   optionToken (balances sampleStables sampleBases sampleOptionTokens) ''SUSD'' =
     Inl (Error ''Option token does not exist'')"
proof -
  let ?B = "balances sampleStables sampleBases sampleOptionTokens"
  note T = balances_lookup [of sampleStables "''SUSD''" sampleBases sampleOptionTokens "''susd''"]
  have h1: "\<exists>s\<in>set sampleStables. stableMatches ''SUSD'' s"
    by (simp add: sampleStables_def match_unfold)
  have h2: "\<forall>b\<in>set sampleBases. \<not> baseMatches ''SUSD'' b"
    by (simp add: sampleBases_def match_unfold)
  have h3: "\<forall>t\<in>set sampleOptionTokens. \<not> optionTokenMatches ''SUSD'' t"
    by (simp add: sampleOptionTokens_def match_unfold)
  have h4: "equalIgnoringCase ''SUSD'' ''susd''"
    by (simp add: match_unfold)
  from T h1 have "\<exists>s\<in>set sampleStables. stable ?B ''SUSD'' = Inr s" by blast
  then have a: "stable ?B ''SUSD'' = Inr (hd sampleStables)" by (simp add: sampleStables_def)
  from T h4 have "stable ?B ''SUSD'' = stable ?B ''susd''" by blast
  with a have b: "stable ?B ''susd'' = Inr (hd sampleStables)" by simp
  from T h2 have c: "base ?B ''SUSD'' = Inl (Error ''Base token does not exist'')" by blast
  from T h3 have d: "optionToken ?B ''SUSD'' = Inl (Error ''Option token does not exist'')"
    by blast
  from a b c d show ?thesis by blast
qed

section \<open>Errors and sequencing\<close>

lemma bind_err_Inr_iff:
  "bind_err m f = Inr y \<longleftrightarrow> (\<exists>x. m = Inr x \<and> f x = Inr y)"
  by (cases m) (simp_all add: bind_err_def)

lemma bind_err_Inl_iff:
  "bind_err m f = Inl e \<longleftrightarrow> m = Inl e \<or> (\<exists>x. m = Inr x \<and> f x = Inl e)"
  by (cases m) (simp_all add: bind_err_def)

lemma BigNumber_from_Inr_iff: "BigNumber_from bnFrom s = Inr n \<longleftrightarrow> bnFrom s = Some n"
  by (simp add: BigNumber_from_def split: option.splits)

lemma BigNumber_from_Inl_iff: "BigNumber_from bnFrom s = Inl e \<longleftrightarrow> bnFrom s = None \<and> e = InvalidBigNumber"
  by (auto simp add: BigNumber_from_def split: option.splits)

lemma await_Inr_iff: "await r = Inr x \<longleftrightarrow> r = Inr x"
  by (cases r) (simp_all add: await_def)

lemma await_Inl_iff: "await r = Inl e \<longleftrightarrow> (\<exists>m. r = Inl m \<and> e = Remote m)"
  by (cases r) (auto simp add: await_def)

lemma bn_div_Inr_iff: "bn_div a b = Inr q \<longleftrightarrow> b \<noteq> 0 \<and> q = a sdiv b"
  by (auto simp add: bn_div_def)

lemma bn_div_Inl_iff: "bn_div a b = Inl e \<longleftrightarrow> b = 0 \<and> e = DivisionByZero"
  by (auto simp add: bn_div_def)

lemma mapE_Inr_list_all2:
  "mapE f xs = Inr ys \<longleftrightarrow> list_all2 (\<lambda>x y. f x = Inr y) xs ys"
  by (induction xs arbitrary: ys) (auto simp add: bind_err_Inr_iff list_all2_Cons1)

lemma mapE_Inl_set:
  "mapE f xs = Inl e \<Longrightarrow> \<exists>x\<in>set xs. f x = Inl e"
  by (induction xs) (auto simp add: bind_err_Inl_iff)

lemma mapE_total:
  "\<forall>x\<in>set xs. \<exists>y. f x = Inr y \<Longrightarrow> \<exists>ys. mapE f xs = Inr ys"
  by (induction xs) (auto simp add: bind_err_Inr_iff)

section \<open>Properties of fetchLiquidityHistory\<close>

lemma marketLiquidity_Inr:
  assumes "marketLiquidity bnFrom fbn s = Inr r"
  shows "sameValues bnFrom s r"
    and "totalQueuedDeposits r = ZERO_BN" and "totalWithdrawingDeposits r = ZERO_BN"
    and "nav r \<le> 0 \<Longrightarrow> utilization r = 0"
    and "0 < nav r \<Longrightarrow> utilization r =
           fbn (((nav r - MarketLiquidityHistory.freeLiquidity r) * UNIT) sdiv nav r)"
  using assms
  by (auto simp add: marketLiquidity_def bind_err_Inr_iff BigNumber_from_Inr_iff sameValues_def
      bn_div_Inr_iff split: if_splits)

lemma marketLiquidity_guardedUtilization:
  "marketLiquidity bnFrom fbn s = Inr r \<Longrightarrow> guardedUtilization bnFrom fbn s r"
  by (simp add: guardedUtilization_def marketLiquidity_Inr(4,5))
    (simp add: marketLiquidity_Inr(1) [unfolded sameValues_def])

lemma marketLiquidity_Inl:
  "marketLiquidity bnFrom fbn s = Inl e \<Longrightarrow> e = InvalidBigNumber \<and> \<not> decodable bnFrom s"
  unfolding marketLiquidity_def
  by (auto simp add: bind_err_Inl_iff BigNumber_from_Inl_iff BigNumber_from_Inr_iff bn_div_Inl_iff
      decodable_def split: if_splits)


lemma marketLiquidity_decodable:
  assumes "decodable bnFrom s"
  shows "\<exists>r. marketLiquidity bnFrom fbn s = Inr r"
proof (cases "marketLiquidity bnFrom fbn s")
  case (Inl e)
  with assms show ?thesis by (auto dest: marketLiquidity_Inl)
next
  case (Inr r)
  then show ?thesis by blast
qed

lemma fetchLiquidityHistory_Inr_iff:
  "fetchLiquidityHistory fs gp bnFrom fbn mkt options = Inr recs \<longleftrightarrow>
     (\<exists>data. fs (queryVariables gp mkt options) = Inr data \<and>
             list_all2 (\<lambda>s r. marketLiquidity bnFrom fbn s = Inr r) data recs)"
  by (simp add: fetchLiquidityHistory_def bind_err_Inr_iff await_Inr_iff mapE_Inr_list_all2)

lemma fetchLiquidityHistory_record:
  assumes "fetchLiquidityHistory fs gp bnFrom fbn mkt options = Inr recs" and "r \<in> set recs"
  shows "\<exists>s. marketLiquidity bnFrom fbn s = Inr r"
proof -
  from assms(1) obtain data where "list_all2 (\<lambda>s r. marketLiquidity bnFrom fbn s = Inr r) data recs"
    by (auto simp add: fetchLiquidityHistory_Inr_iff)
  with assms(2) show ?thesis
    by (auto simp add: list_all2_conv_all_nth in_set_conv_nth)
qed

lemma fetchLiquidityHistory_Inl:
  assumes "fetchLiquidityHistory fs gp bnFrom fbn mkt options = Inl e"
  shows "e = InvalidBigNumber \<or> (\<exists>m. e = Remote m)"
  using assms
  by (auto simp add: fetchLiquidityHistory_def bind_err_Inl_iff await_Inl_iff
      dest!: mapE_Inl_set marketLiquidity_Inl)

text \<open>The history of the sample snapshots, computed.\<close>

lemma sample_history:
  "fetchLiquidityHistory (\<lambda>v. Inr sampleSnapshots) (\<lambda>s e. 3600) sampleDecode (\<lambda>n. n)
     sampleMarket None = Inr sampleHistory"
  by (simp add: fetchLiquidityHistory_def await_def bind_err_def marketLiquidity_def
      BigNumber_from_def sampleDecode_def sampleSnapshots_def sampleHistory_def bn_div_def
      UNIT_def ZERO_BN_def signed_divide_int_def)

text \<open>
  C6. When the indexer answers with a list of snapshots, a history that
  \<open>fetchLiquidityHistory\<close> returns has one record per snapshot, in the same order, and
  each record carries the values of its snapshot unchanged: the same timestamp, and for
  \<open>freeLiquidity\<close>, \<open>burnableLiquidity\<close>, \<open>nav\<close>, \<open>usedCollatLiquidity\<close>,
  \<open>pendingDeltaLiquidity\<close>, \<open>usedDeltaLiquidity\<close>, \<open>tokenPrice\<close>, \<open>pendingDeposits\<close> and
  \<open>pendingWithdrawals\<close> the number that the snapshot's string decodes to. It does return
  a history whenever every amount of every snapshot is a string the library decodes.
\<close>

theorem fetchLiquidityHistory_records:
  "fetchSnapshots (queryVariables gp mkt options) = Inr data \<Longrightarrow>
     (\<forall>recs. fetchLiquidityHistory fetchSnapshots gp bnFrom fbn mkt options = Inr recs \<longrightarrow>
        length recs = length data \<and> list_all2 (sameValues bnFrom) data recs) \<and>
     ((\<forall>s\<in>set data. decodable bnFrom s) \<longrightarrow>
        (\<exists>recs. fetchLiquidityHistory fetchSnapshots gp bnFrom fbn mkt options = Inr recs))"
proof (intro conjI allI impI)
  fix recs
  assume fs: "fetchSnapshots (queryVariables gp mkt options) = Inr data"
    and r: "fetchLiquidityHistory fetchSnapshots gp bnFrom fbn mkt options = Inr recs"
  then have l: "list_all2 (\<lambda>s r. marketLiquidity bnFrom fbn s = Inr r) data recs"
    by (simp add: fetchLiquidityHistory_Inr_iff)
  then show "length recs = length data"
    by (simp add: list_all2_lengthD)
  from l show "list_all2 (sameValues bnFrom) data recs"
    by (rule list_all2_mono) (rule marketLiquidity_Inr(1))
next
  assume fs: "fetchSnapshots (queryVariables gp mkt options) = Inr data"
    and d: "\<forall>s\<in>set data. decodable bnFrom s"
  then have "\<exists>ys. mapE (marketLiquidity bnFrom fbn) data = Inr ys"
    by (intro mapE_total) (blast intro: marketLiquidity_decodable)
  with fs show "\<exists>recs. fetchLiquidityHistory fetchSnapshots gp bnFrom fbn mkt options = Inr recs"
    by (simp add: fetchLiquidityHistory_def bind_err_def await_def)
qed

theorem fetchLiquidityHistory_records_witness:
  "\<exists>recs. fetchLiquidityHistory (\<lambda>v. Inr sampleSnapshots) (\<lambda>s e. 3600) sampleDecode (\<lambda>n. n :: int)
             sampleMarket None = Inr recs \<and>
          length recs = 2 \<and> list_all2 (sameValues sampleDecode) sampleSnapshots recs"
proof -
  note T = fetchLiquidityHistory_records
    [of "\<lambda>v. Inr sampleSnapshots" "\<lambda>s e. 3600" sampleMarket None sampleSnapshots sampleDecode
        "\<lambda>n. n :: int", OF refl]
  have d: "\<forall>s\<in>set sampleSnapshots. decodable sampleDecode s"
    by (simp add: sampleSnapshots_def decodable_def sampleDecode_def)
  have l: "length sampleSnapshots = 2"
    by (simp add: sampleSnapshots_def)
  from T d l show ?thesis by metis
qed

text \<open>
  C10. Every record that \<open>fetchLiquidityHistory\<close> returns has \<open>totalQueuedDeposits\<close> and
  \<open>totalWithdrawingDeposits\<close> equal to the zero BigNumber, whatever the snapshots hold.
\<close>

theorem fetchLiquidityHistory_hard_coded_zero:
  "fetchLiquidityHistory fs gp bnFrom fbn mkt options = Inr recs \<Longrightarrow> r \<in> set recs \<Longrightarrow>
     totalQueuedDeposits r = ZERO_BN \<and> totalWithdrawingDeposits r = ZERO_BN \<and> ZERO_BN = 0"
proof -
  assume "fetchLiquidityHistory fs gp bnFrom fbn mkt options = Inr recs" and "r \<in> set recs"
  then obtain s where s: "marketLiquidity bnFrom fbn s = Inr r"
    by (blast dest: fetchLiquidityHistory_record)
  have "totalQueuedDeposits r = ZERO_BN" and "totalWithdrawingDeposits r = ZERO_BN"
    using s by (rule marketLiquidity_Inr(2), rule marketLiquidity_Inr(3))
  moreover have "ZERO_BN = 0"
    by (simp add: ZERO_BN_def)
  ultimately show ?thesis by simp
qed

theorem fetchLiquidityHistory_hard_coded_zero_witness:
  "totalQueuedDeposits (hd sampleHistory) = ZERO_BN \<and>
   totalWithdrawingDeposits (hd sampleHistory) = ZERO_BN \<and> ZERO_BN = 0"
proof -
  have "hd sampleHistory \<in> set sampleHistory"
    by (simp add: sampleHistory_def)
  with sample_history show ?thesis
    by (rule fetchLiquidityHistory_hard_coded_zero)
qed

section \<open>The two guarded divisions\<close>

lemma UNIT_nonzero: "UNIT \<noteq> 0"
  by (simp add: UNIT_def)

text \<open>
  C2. Neither division can meet a zero divisor. \<open>fetchLiquidityHistory\<close> never fails with
  a division by zero. For every list of snapshots that the indexer answers with, a history
  that is returned has, snapshot by snapshot, a record whose NAV is the decoded NAV of the
  snapshot and whose utilization is \<open>0\<close> when that NAV is not greater than zero (the
  quotient is taken only when it is greater than zero); and such a history is returned
  whenever every amount of every snapshot decodes. \<open>liquidityUnrealizedPnl\<close> never fails
  with a division by zero, and when the average cost per LP token is not greater than zero
  it returns \<open>pnlPercent\<close> zero.
\<close>

theorem division_by_zero_guarded:
  "fetchLiquidityHistory fs gp bnFrom fbn mkt options \<noteq> Inl DivisionByZero \<and>
   (\<forall>data. fs (queryVariables gp mkt options) = Inr data \<longrightarrow>
      (\<forall>recs. fetchLiquidityHistory fs gp bnFrom fbn mkt options = Inr recs \<longrightarrow>
         list_all2 (guardedUtilization bnFrom fbn) data recs) \<and>
      ((\<forall>s\<in>set data. decodable bnFrom s) \<longrightarrow>
         (\<exists>recs. fetchLiquidityHistory fs gp bnFrom fbn mkt options = Inr recs \<and>
                 list_all2 (guardedUtilization bnFrom fbn) data recs))) \<and>
   liquidityUnrealizedPnl getAvg ltb ds ws \<noteq> Inl DivisionByZero \<and>
   (getAvg ds ws \<le> 0 \<longrightarrow>
      liquidityUnrealizedPnl getAvg ltb ds ws =
        Inr \<lparr> pnl = value_bn ltb -
                     (getAvg ds ws * AccountLiquidityTokenBalance.balance ltb) sdiv UNIT,
              pnlPercent = 0 \<rparr>)"
proof -
  have nodiv: "fetchLiquidityHistory fs gp bnFrom fbn mkt options \<noteq> Inl DivisionByZero"
    by (auto dest: fetchLiquidityHistory_Inl)
  have rel: "list_all2 (guardedUtilization bnFrom fbn) data recs"
    if fs: "fs (queryVariables gp mkt options) = Inr data"
      and r: "fetchLiquidityHistory fs gp bnFrom fbn mkt options = Inr recs" for data recs
  proof -
    from fs r have "list_all2 (\<lambda>s r. marketLiquidity bnFrom fbn s = Inr r) data recs"
      by (simp add: fetchLiquidityHistory_Inr_iff)
    then show ?thesis
      by (rule list_all2_mono) (rule marketLiquidity_guardedUtilization)
  qed
  have total: "\<exists>recs. fetchLiquidityHistory fs gp bnFrom fbn mkt options = Inr recs \<and>
                 list_all2 (guardedUtilization bnFrom fbn) data recs"
    if fs: "fs (queryVariables gp mkt options) = Inr data"
      and d: "\<forall>s\<in>set data. decodable bnFrom s" for data
  proof -
    from d have "\<exists>ys. mapE (marketLiquidity bnFrom fbn) data = Inr ys"
      by (intro mapE_total) (blast intro: marketLiquidity_decodable)
    with fs obtain recs where "fetchLiquidityHistory fs gp bnFrom fbn mkt options = Inr recs"
      by (auto simp add: fetchLiquidityHistory_def bind_err_def await_def)
    with rel [OF fs] show ?thesis by blast
  qed
  have pnl1: "liquidityUnrealizedPnl getAvg ltb ds ws \<noteq> Inl DivisionByZero"
    by (simp add: liquidityUnrealizedPnl_def Let_def bn_div_def bind_err_def UNIT_nonzero)
  have pnl2: "liquidityUnrealizedPnl getAvg ltb ds ws =
        Inr \<lparr> pnl = value_bn ltb -
                     (getAvg ds ws * AccountLiquidityTokenBalance.balance ltb) sdiv UNIT,
              pnlPercent = 0 \<rparr>" if "getAvg ds ws \<le> 0"
    using that
    by (simp add: liquidityUnrealizedPnl_def Let_def bn_div_def bind_err_def UNIT_nonzero
        ZERO_BN_def)
  from nodiv rel total pnl1 pnl2 show ?thesis
    by (intro conjI allI impI) blast+
qed

theorem division_by_zero_guarded_witness:
  "fetchLiquidityHistory (\<lambda>v. Inr sampleSnapshots) (\<lambda>s e. 3600) sampleDecode (\<lambda>n. n)
     sampleMarket None = Inr sampleHistory \<and>
   list_all2 (guardedUtilization sampleDecode (\<lambda>n. n)) sampleSnapshots sampleHistory \<and>
   sampleDecode (NAV (sampleSnapshots ! 1)) = Some 0 \<and>
   utilization (sampleHistory ! 1) = 0 \<and>
   liquidityUnrealizedPnl (\<lambda>ds ws. 0) sampleTokenBalance ([] :: unit list) ([] :: unit list) =
     Inr \<lparr> pnl = 7, pnlPercent = 0 \<rparr>"
proof -
  note T = division_by_zero_guarded
    [of "\<lambda>v. Inr sampleSnapshots" "\<lambda>s e. 3600" sampleDecode "\<lambda>n. n :: int" sampleMarket None
        "\<lambda>ds ws. 0" sampleTokenBalance "[] :: unit list" "[] :: unit list"]
  from T sample_history
  have l: "list_all2 (guardedUtilization sampleDecode (\<lambda>n. n)) sampleSnapshots sampleHistory"
    by blast
  then have "guardedUtilization sampleDecode (\<lambda>n. n) (sampleSnapshots ! 1) (sampleHistory ! 1)"
    by (rule list_all2_nthD) (simp add: sampleSnapshots_def)
  moreover have "nav (sampleHistory ! 1) = 0"
    by (simp add: sampleHistory_def)
  ultimately have a: "sampleDecode (NAV (sampleSnapshots ! 1)) = Some 0"
    and b: "utilization (sampleHistory ! 1) = 0"
    by (simp_all add: guardedUtilization_def)
  from T have "liquidityUnrealizedPnl (\<lambda>ds ws. 0) sampleTokenBalance ([] :: unit list)
      ([] :: unit list) =
      Inr \<lparr> pnl = value_bn sampleTokenBalance -
                   (0 * AccountLiquidityTokenBalance.balance sampleTokenBalance) sdiv UNIT,
            pnlPercent = 0 \<rparr>"
    by simp
  then have c: "liquidityUnrealizedPnl (\<lambda>ds ws. 0) sampleTokenBalance ([] :: unit list)
      ([] :: unit list) = Inr \<lparr> pnl = 7, pnlPercent = 0 \<rparr>"
    by (simp add: sampleTokenBalance_def)
  from sample_history l a b c show ?thesis by simp
qed

section \<open>Properties of Account.drip\<close>

text \<open>
  C4. \<open>drip\<close> throws \<open>Faucet is only supported on local and kovan contracts\<close> if and only if
  the deployment is neither Kovan nor Local. On Kovan and on Local it passes the guard and
  goes on to build the faucet transaction: it gets the faucet contract, encodes the call
  of \<open>drip\<close> and hands both to \<open>buildTxWithGasEstimate\<close>. An exception of one of these steps
  passes through, and an answer with no transaction throws the message of the gas
  estimate. A transaction is
  returned only on Kovan or Local, and it is the one that \<open>buildTxWithGasEstimate\<close> gave.
\<close>

theorem drip_deployment_guard:
  "(drip glc btx this = Inl (Error ''Faucet is only supported on local and kovan contracts'') \<longleftrightarrow>
      deployment (lyra this) \<noteq> Kovan \<and> deployment (lyra this) \<noteq> Local) \<and>
   (deployment (lyra this) = Kovan \<or> deployment (lyra this) = Local \<longrightarrow>
      drip glc btx this =
        (case glc (deployment (lyra this)) TestFaucet of
           Inl e \<Rightarrow> Inl (Thrown e)
         | Inr faucet \<Rightarrow>
             (case encodeFunctionData faucet ''drip'' of
                Inl e \<Rightarrow> Inl (Thrown e)
              | Inr calldata \<Rightarrow>
                  (case btx (lyra this) (Contract.address faucet) (Account.address this)
                          calldata of
                     Inl e \<Rightarrow> Inl (Remote e)
                   | Inr None \<Rightarrow> Inl (Error ''Failed to estimate gas for drip transaction'')
                   | Inr (Some t) \<Rightarrow> Inr t)))) \<and>
   (\<forall>t. drip glc btx this = Inr t \<longrightarrow>
      (deployment (lyra this) = Kovan \<or> deployment (lyra this) = Local) \<and>
      (\<exists>faucet calldata.
         glc (deployment (lyra this)) TestFaucet = Inr faucet \<and>
         encodeFunctionData faucet ''drip'' = Inr calldata \<and>
         btx (lyra this) (Contract.address faucet) (Account.address this) calldata =
           Inr (Some t)))"
proof (intro conjI allI impI)
  show "drip glc btx this = Inl (Error ''Faucet is only supported on local and kovan contracts'') \<longleftrightarrow>
      deployment (lyra this) \<noteq> Kovan \<and> deployment (lyra this) \<noteq> Local"
    by (auto simp add: drip_def bind_err_def await_def call_def
        split: sum.splits option.splits)
next
  assume "deployment (lyra this) = Kovan \<or> deployment (lyra this) = Local"
  then show "drip glc btx this =
        (case glc (deployment (lyra this)) TestFaucet of
           Inl e \<Rightarrow> Inl (Thrown e)
         | Inr faucet \<Rightarrow>
             (case encodeFunctionData faucet ''drip'' of
                Inl e \<Rightarrow> Inl (Thrown e)
              | Inr calldata \<Rightarrow>
                  (case btx (lyra this) (Contract.address faucet) (Account.address this)
                          calldata of
                     Inl e \<Rightarrow> Inl (Remote e)
                   | Inr None \<Rightarrow> Inl (Error ''Failed to estimate gas for drip transaction'')
                   | Inr (Some t) \<Rightarrow> Inr t)))"
    by (auto simp add: drip_def bind_err_def await_def call_def
        split: sum.splits option.splits)
next
  fix t
  assume r: "drip glc btx this = Inr t"
  then show "deployment (lyra this) = Kovan \<or> deployment (lyra this) = Local"
    by (auto simp add: drip_def split: if_splits)
  from r show "\<exists>faucet calldata.
         glc (deployment (lyra this)) TestFaucet = Inr faucet \<and>
         encodeFunctionData faucet ''drip'' = Inr calldata \<and>
         btx (lyra this) (Contract.address faucet) (Account.address this) calldata =
           Inr (Some t)"
    by (auto simp add: drip_def bind_err_def await_def call_def
        split: if_splits sum.splits option.splits)
qed

theorem drip_deployment_guard_witness:
  "drip sampleFaucet sampleBuildTx
     \<lparr> lyra = \<lparr> deployment = Mainnet \<rparr>, Account.address = ''0xMe06'' \<rparr> =
     Inl (Error ''Faucet is only supported on local and kovan contracts'') \<and>
   drip sampleFaucet sampleBuildTx
     \<lparr> lyra = \<lparr> deployment = Kovan \<rparr>, Account.address = ''0xMe06'' \<rparr> =
     Inr (''0xFa05'', ''0xMe06'', ''drip'') \<and>
   drip sampleFaucet sampleBuildTx
     \<lparr> lyra = \<lparr> deployment = Local \<rparr>, Account.address = ''0xMe06'' \<rparr> =
     Inl (Thrown ''Global contract address not found'')"
proof -
  note M = drip_deployment_guard [of sampleFaucet sampleBuildTx
      "\<lparr> lyra = \<lparr> deployment = Mainnet \<rparr>, Account.address = ''0xMe06'' \<rparr>", THEN conjunct1]
  note K = drip_deployment_guard [of sampleFaucet sampleBuildTx
      "\<lparr> lyra = \<lparr> deployment = Kovan \<rparr>, Account.address = ''0xMe06'' \<rparr>",
      THEN conjunct2, THEN conjunct1]
  note L = drip_deployment_guard [of sampleFaucet sampleBuildTx
      "\<lparr> lyra = \<lparr> deployment = Local \<rparr>, Account.address = ''0xMe06'' \<rparr>",
      THEN conjunct2, THEN conjunct1]
  from M have m: "drip sampleFaucet sampleBuildTx
     \<lparr> lyra = \<lparr> deployment = Mainnet \<rparr>, Account.address = ''0xMe06'' \<rparr> =
     Inl (Error ''Faucet is only supported on local and kovan contracts'')"
    by simp
  from K have k: "drip sampleFaucet sampleBuildTx
     \<lparr> lyra = \<lparr> deployment = Kovan \<rparr>, Account.address = ''0xMe06'' \<rparr> =
     Inr (''0xFa05'', ''0xMe06'', ''drip'')"
    by (simp add: sampleFaucet_def sampleBuildTx_def)
  from L have l: "drip sampleFaucet sampleBuildTx
     \<lparr> lyra = \<lparr> deployment = Local \<rparr>, Account.address = ''0xMe06'' \<rparr> =
     Inl (Thrown ''Global contract address not found'')"
    by (simp add: sampleFaucet_def)
  from m k l show ?thesis by simp
qed

section \<open>Properties of the command optionTradingVolume\<close>

text \<open>
  C7. The command hands the parser exactly four flags: \<open>market\<close> (a string, required),
  \<open>strikeId\<close> (a number, required), \<open>isCall\<close> (a boolean, required) and \<open>timestamp\<close> (a
  number, optional). When the parser, the option lookup and the query of the trading
  volume history from the given timestamp succeed, it prints one line, the number of
  records of the history; and whatever it prints is such a count.
\<close>

theorem optionTradingVolume_cli:
  "map fst optionTradingVolume_options = [''market'', ''strikeId'', ''isCall'', ''timestamp''] \<and>
   map (\<lambda>(k, v). (optType v, optRequire v)) optionTradingVolume_options =
     [(TString, True), (TNumber, True), (TBoolean, True), (TNumber, False)] \<and>
   (yargs argv optionTradingVolume_options = Inr args \<longrightarrow>
    lyra_option (Args.market args) (strikeId args) (isCall args) = Inr opt \<longrightarrow>
    tradingVolumeHistory opt \<lparr> startTimestamp = Args.timestamp args \<rparr> = Inr optionVolumes \<longrightarrow>
      optionTradingVolume yargs lyra_option tradingVolumeHistory argv =
        Inr [length optionVolumes]) \<and>
   (\<forall>out. optionTradingVolume yargs lyra_option tradingVolumeHistory argv = Inr out \<longrightarrow>
      (\<exists>a p vs. yargs argv optionTradingVolume_options = Inr a \<and>
         lyra_option (Args.market a) (strikeId a) (isCall a) = Inr p \<and>
         tradingVolumeHistory p \<lparr> startTimestamp = Args.timestamp a \<rparr> = Inr vs \<and>
         out = [length vs]))"
proof (intro conjI allI impI)
  show "map fst optionTradingVolume_options = [''market'', ''strikeId'', ''isCall'', ''timestamp'']"
    by (simp add: optionTradingVolume_options_def)
  show "map (\<lambda>(k, v). (optType v, optRequire v)) optionTradingVolume_options =
     [(TString, True), (TNumber, True), (TBoolean, True), (TNumber, False)]"
    by (simp add: optionTradingVolume_options_def)
next
  assume "yargs argv optionTradingVolume_options = Inr args"
    and "lyra_option (Args.market args) (strikeId args) (isCall args) = Inr opt"
    and "tradingVolumeHistory opt \<lparr> startTimestamp = Args.timestamp args \<rparr> = Inr optionVolumes"
  then show "optionTradingVolume yargs lyra_option tradingVolumeHistory argv =
      Inr [length optionVolumes]"
    by (simp add: optionTradingVolume_def bind_err_def await_def)
next
  fix out
  assume "optionTradingVolume yargs lyra_option tradingVolumeHistory argv = Inr out"
  then show "\<exists>a p vs. yargs argv optionTradingVolume_options = Inr a \<and>
      lyra_option (Args.market a) (strikeId a) (isCall a) = Inr p \<and>
      tradingVolumeHistory p \<lparr> startTimestamp = Args.timestamp a \<rparr> = Inr vs \<and>
      out = [length vs]"
    by (auto simp add: optionTradingVolume_def bind_err_Inr_iff await_Inr_iff)
qed

theorem optionTradingVolume_cli_witness:
  "optionTradingVolume (\<lambda>argv opts. Inr sampleArgs) (\<lambda>m s c. Inr (m, s, c))
     (\<lambda>opt t. Inr [''a'', ''b'', ''c'']) [''--market'', ''eth''] = Inr [3]"
  using optionTradingVolume_cli
    [of "\<lambda>argv opts. Inr sampleArgs" "[''--market'', ''eth'']" sampleArgs "\<lambda>m s c. Inr (m, s, c)"
        "(Args.market sampleArgs, strikeId sampleArgs, isCall sampleArgs)"
        "\<lambda>opt t. Inr [''a'', ''b'', ''c'']" "[''a'', ''b'', ''c'']",
     THEN conjunct2, THEN conjunct2, THEN conjunct1]
  by simp

end
